theory Spec2Isabelle
  imports Complex_Main "HOL-Library.Log_Nat" "HOL-Library.Sublist"
begin

section \<open>JavaScript numbers\<close>

text \<open>
  A JavaScript Number is an IEEE-754 binary64 value. The finite ones are rationals, so the
  type of numbers is \<open>rat\<close>, and every arithmetic operator computes the exact result and
  rounds it to the nearest value with a 53-bit significand, ties to even. The exponent
  range is not modelled: every value computed below is 0 or lies between \<open>2 ^ -24\<close> and
  \<open>2 ^ 54\<close>, far from the subnormal and the overflow range, so NaN and the infinities never
  arise.
\<close>

type_synonym number = rat

definition round_half_even :: "rat \<Rightarrow> int" where
  "round_half_even y =
     (let f = \<lfloor>y\<rfloor>; r = y - of_int f
      in if r < 1 / 2 then f else if 1 / 2 < r then f + 1 else if even f then f else f + 1)"

text \<open>\<open>expo x\<close> is the binary exponent of a positive \<open>x\<close>: \<open>2 powi expo x \<le> x < 2 powi (expo x + 1)\<close>.\<close>

definition expo :: "rat \<Rightarrow> int" where
  "expo x =
     (let (p, q) = quotient_of x; d = bitlen p - bitlen q
      in if 2 powi d \<le> x then d else d - 1)"

definition binary64 :: "rat \<Rightarrow> number" where
  "binary64 x =
     (if x = 0 then 0
      else let e = expo \<bar>x\<bar> - 52
           in sgn x * (of_int (round_half_even (\<bar>x\<bar> / 2 powi e)) * 2 powi e))"

definition js_add :: "number \<Rightarrow> number \<Rightarrow> number" where
  "js_add x y = binary64 (x + y)"

definition js_mul :: "number \<Rightarrow> number \<Rightarrow> number" where
  "js_mul x y = binary64 (x * y)"

text \<open>The divisors of this program are the non-zero constants 4 and 1000000.\<close>

definition js_div :: "number \<Rightarrow> number \<Rightarrow> number" where
  "js_div x y = binary64 (x / y)"

text \<open>\<open>Math.ceil\<close> is exact; \<open>Math.round\<close> is \<open>floor (x + 0.5)\<close> computed exactly, so a tie goes up.\<close>

definition Math_ceil :: "number \<Rightarrow> number" where
  "Math_ceil x = of_int \<lceil>x\<rceil>"

definition Math_round :: "number \<Rightarrow> number" where
  "Math_round x = of_int \<lfloor>x + 1 / 2\<rfloor>"

text \<open>\<open>s.length\<close>: the number of code units of the string, here the elements of the list.\<close>

definition string_length :: "string \<Rightarrow> number" where
  "string_length s = of_nat (length s)"


section \<open>The estimators (mlops-tracking)\<close>

record TokenUsage =
  totalTokens :: number
  systemTokens :: number
  userTokens :: number
  responseTokens :: number

definition CHARS_PER_TOKEN :: number where
  "CHARS_PER_TOKEN = 4"

definition calculateTokenUsage :: "string \<Rightarrow> string \<Rightarrow> string \<Rightarrow> TokenUsage" where
  "calculateTokenUsage systemPrompt userMessage aiResponse =
     (let systemTokens' = Math_ceil (js_div (string_length systemPrompt) CHARS_PER_TOKEN);
          userTokens' = Math_ceil (js_div (string_length userMessage) CHARS_PER_TOKEN);
          responseTokens' = Math_ceil (js_div (string_length aiResponse) CHARS_PER_TOKEN);
          totalTokens' = js_add (js_add systemTokens' userTokens') responseTokens'
      in \<lparr>totalTokens = totalTokens', systemTokens = systemTokens',
          userTokens = userTokens', responseTokens = responseTokens'\<rparr>)"

text \<open>The literal \<open>0.1875\<close> denotes the binary64 value nearest to 1875 / 10000.\<close>

definition COST_PER_MILLION_TOKENS :: number where
  "COST_PER_MILLION_TOKENS = binary64 (1875 / 10000)"

definition estimateApiCost :: "number \<Rightarrow> number" where
  "estimateApiCost totalTokens' =
     (let costUsd = js_mul (js_div totalTokens' 1000000) COST_PER_MILLION_TOKENS
      in js_div (Math_round (js_mul costUsd 1000000)) 1000000)"



section \<open>Errors, the outside world and asynchronous functions\<close>

text \<open>What a rejected promise or a \<open>throw\<close> carries.\<close>

datatype js_error =
    Module_not_found
  | Database_error string
  | Fetch_failed string
  | Timeout_error
  | Json_syntax_error
  | Type_error
  | Error_responded_with_status nat

datatype sql_param = Undefined | String string | Number number | Boolean bool

type_synonym row = "(string \<times> sql_param) list"

text \<open>
  The fields of \<open>Omit<AIMetrics, "id" | "created_at">\<close>, the argument of \<open>createAIMetrics\<close>.
  An optional field is an \<open>option\<close>, \<open>None\<close> for \<open>undefined\<close>.
\<close>

record AIMetrics_input =
  business_id :: string
  conversation_id :: "string option"
  session_id :: string
  response_time_ms :: number
  success_rate :: number
  tokens_used :: number
  prompt_tokens :: "number option"
  completion_tokens :: "number option"
  api_cost_usd :: number
  model_name :: string
  intent_detected :: string
  appointment_requested :: bool
  human_handoff_requested :: bool
  appointment_booked :: "bool option"
  user_message_length :: number
  ai_response_length :: number
  response_type :: string

text \<open>\<open>MetricsData\<close> has the same fields and \<open>user_satisfaction\<close>.\<close>

record MetricsData = AIMetrics_input +
  user_satisfaction :: "number option"

datatype json_body = Json_metrics MetricsData | Json_trigger string

record request =
  url :: string
  http_method :: string
  headers :: "(string \<times> string) list"
  body :: json_body
  timeout_ms :: "nat option"

text \<open>What \<open>response.json()\<close> resolves to: \<open>null\<close>, or a value whose \<open>status\<close> property is read.\<close>

datatype json_value = Json_null | Json_value "string option"

record response =
  status :: nat
  json :: "js_error + json_value"

definition ok :: "response \<Rightarrow> bool" where
  "ok r = (200 \<le> status r \<and> status r \<le> 299)"

datatype event = Sql_insert row | Fetch request

datatype logged = Text string | Status "string option" | Err js_error

datatype console_entry = Console_log "logged list" | Console_error "logged list"

type_synonym addr = nat

text \<open>
  The state of the process: the environment variables, the objects of type \<open>MetricsData\<close>
  on the heap (a caller passes a reference), the calls made to the database and to the
  network so far, in order, and the console.
\<close>

record world =
  process_env :: "string \<rightharpoonup> string"
  heap :: "addr \<Rightarrow> MetricsData"
  events :: "event list"
  console :: "console_entry list"

text \<open>
  How the outside answers during one invocation: whether the dynamic import of the
  database module resolves, what the SQL statement returns or rejects with, and what
  \<open>fetch\<close> resolves to or rejects with (a network error, or \<open>Timeout_error\<close> when the
  request's abort signal fires).
\<close>

record io =
  import_database :: "js_error option"
  sql :: "row \<Rightarrow> js_error + row list"
  fetch_result :: "request \<Rightarrow> js_error + response"

text \<open>An awaited computation: it ends with a value or a thrown error, in a new state.\<close>

type_synonym 'a js = "world \<Rightarrow> (js_error + 'a) \<times> world"

definition returnJ :: "'a \<Rightarrow> 'a js" where
  "returnJ x w = (Inr x, w)"

definition throwJ :: "js_error \<Rightarrow> 'a js" where
  "throwJ e w = (Inl e, w)"

definition bindJ :: "'a js \<Rightarrow> ('a \<Rightarrow> 'b js) \<Rightarrow> 'b js" where
  "bindJ m f w = (case m w of (Inl e, w') \<Rightarrow> (Inl e, w') | (Inr x, w') \<Rightarrow> f x w')"

definition tryCatch :: "'a js \<Rightarrow> (js_error \<Rightarrow> 'a js) \<Rightarrow> 'a js" where
  "tryCatch m h w = (case m w of (Inl e, w') \<Rightarrow> h e w' | (Inr x, w') \<Rightarrow> (Inr x, w'))"

definition console_log :: "logged list \<Rightarrow> unit js" where
  "console_log xs w = (Inr (), w\<lparr>console := console w @ [Console_log xs]\<rparr>)"

definition console_error :: "logged list \<Rightarrow> unit js" where
  "console_error xs w = (Inr (), w\<lparr>console := console w @ [Console_error xs]\<rparr>)"

definition fetch :: "io \<Rightarrow> request \<Rightarrow> response js" where
  "fetch io req w = (fetch_result io req, w\<lparr>events := events w @ [Fetch req]\<rparr>)"

definition response_json :: "response \<Rightarrow> json_value js" where
  "response_json r w = (json r, w)"

text \<open>\<open>result.status\<close>: reading a property of \<open>null\<close> throws a TypeError.\<close>

definition get_status :: "json_value \<Rightarrow> (string option) js" where
  "get_status v = (case v of Json_null \<Rightarrow> throwJ Type_error | Json_value s \<Rightarrow> returnJ s)"

definition import_lib_database :: "io \<Rightarrow> unit js" where
  "import_lib_database io = (case import_database io of None \<Rightarrow> returnJ () | Some e \<Rightarrow> throwJ e)"

text \<open>\<open>a || b\<close> on an optional boolean and on an optional string: \<open>undefined\<close>, \<open>false\<close> and the
  empty string are falsy.\<close>

definition or_bool :: "bool option \<Rightarrow> bool \<Rightarrow> bool" where
  "or_bool a b = (case a of None \<Rightarrow> b | Some x \<Rightarrow> if x then x else b)"

definition or_string :: "string option \<Rightarrow> string \<Rightarrow> string" where
  "or_string a b = (case a of None \<Rightarrow> b | Some s \<Rightarrow> if s = [] then b else s)"

definition optional :: "('a \<Rightarrow> sql_param) \<Rightarrow> 'a option \<Rightarrow> sql_param" where
  "optional f x = (case x of None \<Rightarrow> Undefined | Some v \<Rightarrow> f v)"


section \<open>The database layer (lib/database)\<close>

text \<open>The columns of the INSERT statement with the values interpolated for them, in order.\<close>

definition insert_values :: "AIMetrics_input \<Rightarrow> row" where
  "insert_values metrics =
     [(''business_id'', String (business_id metrics)),
      (''conversation_id'', optional String (conversation_id metrics)),
      (''session_id'', String (session_id metrics)),
      (''response_time_ms'', Number (response_time_ms metrics)),
      (''success_rate'', Number (success_rate metrics)),
      (''tokens_used'', Number (tokens_used metrics)),
      (''prompt_tokens'', optional Number (prompt_tokens metrics)),
      (''completion_tokens'', optional Number (completion_tokens metrics)),
      (''api_cost_usd'', Number (api_cost_usd metrics)),
      (''model_name'', String (model_name metrics)),
      (''intent_detected'', String (intent_detected metrics)),
      (''appointment_requested'', Boolean (appointment_requested metrics)),
      (''human_handoff_requested'', Boolean (human_handoff_requested metrics)),
      (''appointment_booked'', Boolean (or_bool (appointment_booked metrics) False)),
      (''user_message_length'', Number (user_message_length metrics)),
      (''ai_response_length'', Number (ai_response_length metrics)),
      (''response_type'', String (response_type metrics))]"

text \<open>\<open>result[0]\<close> of an empty result is \<open>undefined\<close>, here \<open>None\<close>.\<close>

definition createAIMetrics :: "io \<Rightarrow> AIMetrics_input \<Rightarrow> (row option) js" where
  "createAIMetrics io metrics w =
     (let w' = w\<lparr>events := events w @ [Sql_insert (insert_values metrics)]\<rparr>
      in case sql io (insert_values metrics) of
           Inl e \<Rightarrow> (Inl e, w')
         | Inr result \<Rightarrow> (Inr (case result of [] \<Rightarrow> None | r # _ \<Rightarrow> Some r), w'))"


section \<open>The reporter (mlops-tracking)\<close>

text \<open>\<open>process.env.NAME\<close>: the value of the variable, or \<open>undefined\<close>.\<close>

definition process_env_get :: "string \<Rightarrow> (string option) js" where
  "process_env_get name w = (Inr (process_env w name), w)"

text \<open>The object literal passed to \<open>createAIMetrics\<close>: a new object with seventeen fields
  copied from the record.\<close>

definition metrics_literal :: "MetricsData \<Rightarrow> AIMetrics_input" where
  "metrics_literal metricsData =
     \<lparr>business_id = business_id metricsData,
      conversation_id = conversation_id metricsData,
      session_id = session_id metricsData,
      response_time_ms = response_time_ms metricsData,
      success_rate = success_rate metricsData,
      tokens_used = tokens_used metricsData,
      prompt_tokens = prompt_tokens metricsData,
      completion_tokens = completion_tokens metricsData,
      api_cost_usd = api_cost_usd metricsData,
      model_name = model_name metricsData,
      intent_detected = intent_detected metricsData,
      appointment_requested = appointment_requested metricsData,
      human_handoff_requested = human_handoff_requested metricsData,
      appointment_booked = appointment_booked metricsData,
      user_message_length = user_message_length metricsData,
      ai_response_length = ai_response_length metricsData,
      response_type = response_type metricsData\<rparr>"

text \<open>
  \<open>trackMetrics\<close> of the tracking module that stores the record first. The argument is the
  reference to the record; its fields are read from the heap where the source reads them:
  for the object literal, and again for \<open>JSON.stringify\<close>. Every awaited call settles: it
  resolves or it rejects.
\<close>

definition trackMetrics :: "io \<Rightarrow> addr \<Rightarrow> unit js" where
  "trackMetrics io metricsData =
     tryCatch
       (bindJ (import_lib_database io) (\<lambda>_.
        bindJ (\<lambda>w. createAIMetrics io (metrics_literal (heap w metricsData)) w) (\<lambda>_.
        bindJ (process_env_get ''MLOPS_SERVICE_URL'') (\<lambda>v.
        let mlopsServiceUrl = or_string v ''http://localhost:5001'' in
        bindJ (\<lambda>w. fetch io
                 \<lparr>url = mlopsServiceUrl @ ''/track'',
                  http_method = ''POST'',
                  headers = [(''Content-Type'', ''application/json'')],
                  body = Json_metrics (heap w metricsData),
                  timeout_ms = Some 5000\<rparr> w) (\<lambda>response.
        bindJ (if \<not> ok response then throwJ (Error_responded_with_status (status response))
               else returnJ ()) (\<lambda>_.
        bindJ (response_json response) (\<lambda>result.
        bindJ (get_status result) (\<lambda>s.
        bindJ (console_log [Text ''Metrics tracked successfully:'', Status s]) (\<lambda>_.
        tryCatch
          (bindJ (fetch io
                    \<lparr>url = mlopsServiceUrl @ ''/refresh-metrics'',
                     http_method = ''POST'',
                     headers = [(''Content-Type'', ''application/json'')],
                     body = Json_trigger ''new_metrics'',
                     timeout_ms = Some 3000\<rparr>) (\<lambda>_. returnJ ()))
          (\<lambda>refreshError.
             console_log [Text ''Metrics refresh skipped:'', Err refreshError]))))))))))
       (\<lambda>error. console_error [Text ''Error tracking metrics:'', Err error])"

text \<open>
  \<open>trackMetrics\<close> of the tracking module that only sends the record: no database call, no
  abort signal on the request, no refresh.
\<close>

definition trackMetrics_send_only :: "io \<Rightarrow> addr \<Rightarrow> unit js" where
  "trackMetrics_send_only io metricsData =
     tryCatch
       (bindJ (process_env_get ''MLOPS_SERVICE_URL'') (\<lambda>v.
        let mlopsServiceUrl = or_string v ''http://localhost:5001'' in
        bindJ (\<lambda>w. fetch io
                 \<lparr>url = mlopsServiceUrl @ ''/track'',
                  http_method = ''POST'',
                  headers = [(''Content-Type'', ''application/json'')],
                  body = Json_metrics (heap w metricsData),
                  timeout_ms = None\<rparr> w) (\<lambda>response.
        bindJ (if \<not> ok response then throwJ (Error_responded_with_status (status response))
               else returnJ ()) (\<lambda>_.
        bindJ (response_json response) (\<lambda>result.
        bindJ (get_status result) (\<lambda>s.
        console_log [Text ''Metrics tracked successfully:'', Status s]))))))
       (\<lambda>error. console_error [Text ''Error tracking metrics:'', Err error])"


section \<open>The estimators as calls in a state of the process\<close>

text \<open>
  The bodies of the two estimators once more, statement by statement, as computations in
  the state of the process: each \<open>const\<close> is a step, and a read of the environment or of a
  module variable, a write to the console or a \<open>throw\<close> would be a step that uses or
  changes the state. The bodies have no such step.
\<close>

definition calculateTokenUsage_call :: "string \<Rightarrow> string \<Rightarrow> string \<Rightarrow> TokenUsage js" where
  "calculateTokenUsage_call systemPrompt userMessage aiResponse =
     bindJ (returnJ 4) (\<lambda>chars_per_token.
     bindJ (returnJ (Math_ceil (js_div (string_length systemPrompt) chars_per_token)))
       (\<lambda>systemTokens'.
     bindJ (returnJ (Math_ceil (js_div (string_length userMessage) chars_per_token)))
       (\<lambda>userTokens'.
     bindJ (returnJ (Math_ceil (js_div (string_length aiResponse) chars_per_token)))
       (\<lambda>responseTokens'.
     bindJ (returnJ (js_add (js_add systemTokens' userTokens') responseTokens'))
       (\<lambda>totalTokens'.
     returnJ \<lparr>totalTokens = totalTokens', systemTokens = systemTokens',
              userTokens = userTokens', responseTokens = responseTokens'\<rparr>)))))"

definition estimateApiCost_call :: "number \<Rightarrow> number js" where
  "estimateApiCost_call totalTokens' =
     bindJ (returnJ (binary64 (1875 / 10000))) (\<lambda>cost_per_million_tokens.
     bindJ (returnJ (js_mul (js_div totalTokens' 1000000) cost_per_million_tokens)) (\<lambda>costUsd.
     returnJ (js_div (Math_round (js_mul costUsd 1000000)) 1000000)))"

text \<open>A caller that makes the same call twice, one after the other.\<close>

definition call_twice :: "'a js \<Rightarrow> ('a \<times> 'a) js" where
  "call_twice call = bindJ call (\<lambda>r1. bindJ call (\<lambda>r2. returnJ (r1, r2)))"


section \<open>The requests of an invocation\<close>

text \<open>
  The base URL and the requests that an invocation started in the state \<open>w\<close> on the record
  at \<open>metricsData\<close> sends, if it gets that far; the statements below are about these.
\<close>

definition mlopsServiceUrl :: "world \<Rightarrow> string" where
  "mlopsServiceUrl w = or_string (process_env w ''MLOPS_SERVICE_URL'') ''http://localhost:5001''"

definition track_request :: "world \<Rightarrow> addr \<Rightarrow> request" where
  "track_request w metricsData =
     \<lparr>url = mlopsServiceUrl w @ ''/track'',
      http_method = ''POST'',
      headers = [(''Content-Type'', ''application/json'')],
      body = Json_metrics (heap w metricsData),
      timeout_ms = Some 5000\<rparr>"

definition refresh_request :: "world \<Rightarrow> request" where
  "refresh_request w =
     \<lparr>url = mlopsServiceUrl w @ ''/refresh-metrics'',
      http_method = ''POST'',
      headers = [(''Content-Type'', ''application/json'')],
      body = Json_trigger ''new_metrics'',
      timeout_ms = Some 3000\<rparr>"

definition track_request_no_timeout :: "world \<Rightarrow> addr \<Rightarrow> request" where
  "track_request_no_timeout w metricsData =
     \<lparr>url = mlopsServiceUrl w @ ''/track'',
      http_method = ''POST'',
      headers = [(''Content-Type'', ''application/json'')],
      body = Json_metrics (heap w metricsData),
      timeout_ms = None\<rparr>"


section \<open>Sample records, states and behaviours of the outside\<close>

definition sample_metrics :: MetricsData where
  "sample_metrics =
     \<lparr>business_id = ''biz-1'', conversation_id = None, session_id = ''sess-1'',
      response_time_ms = 120, success_rate = 1, tokens_used = 296,
      prompt_tokens = None, completion_tokens = None, api_cost_usd = 0,
      model_name = ''gemini-1.5-flash'', intent_detected = ''booking'',
      appointment_requested = True, human_handoff_requested = False,
      appointment_booked = None, user_message_length = 20, ai_response_length = 40,
      response_type = ''text'', user_satisfaction = None\<rparr>"

definition world0 :: world where
  "world0 = \<lparr>process_env = Map.empty, heap = (\<lambda>_. sample_metrics), events = [], console = []\<rparr>"

definition world_empty_url :: world where
  "world_empty_url = world0\<lparr>process_env := [''MLOPS_SERVICE_URL'' \<mapsto> []]\<rparr>"

definition world_custom_url :: world where
  "world_custom_url = world0\<lparr>process_env := [''MLOPS_SERVICE_URL'' \<mapsto> ''http://mlops:9000'']\<rparr>"

definition response_200 :: response where
  "response_200 = \<lparr>status = 200, json = Inr (Json_value (Some ''success''))\<rparr>"

definition response_500 :: response where
  "response_500 = \<lparr>status = 500, json = Inl Json_syntax_error\<rparr>"

definition io_ok :: io where
  "io_ok = \<lparr>import_database = None, sql = (\<lambda>r. Inr [r]), fetch_result = (\<lambda>_. Inr response_200)\<rparr>"

definition io_db_down :: io where
  "io_db_down = io_ok\<lparr>sql := (\<lambda>_. Inl (Database_error ''connection refused''))\<rparr>"

definition io_http_500 :: io where
  "io_http_500 = io_ok\<lparr>fetch_result := (\<lambda>_. Inr response_500)\<rparr>"

text \<open>The calls a state has recorded beyond those of an earlier state.\<close>

definition new_events :: "world \<Rightarrow> world \<Rightarrow> event list" where
  "new_events w w' = drop (length (events w)) (events w')"

definition refresh_skipped :: "console_entry \<Rightarrow> bool" where
  "refresh_skipped c = (case c of
       Console_log [Text t, Err e] \<Rightarrow> t = ''Metrics refresh skipped:''
     | _ \<Rightarrow> False)"


text \<open>The same behaviour of the outside, except for the answer to the refresh request.\<close>

definition with_refresh_result :: "io \<Rightarrow> world \<Rightarrow> js_error + response \<Rightarrow> io" where
  "with_refresh_result io w r = io\<lparr>fetch_result := (fetch_result io)(refresh_request w := r)\<rparr>"

definition not_refresh_skipped :: "console_entry list \<Rightarrow> console_entry list" where
  "not_refresh_skipped cs = filter (\<lambda>c. \<not> refresh_skipped c) cs"


text \<open>The state after the outer \<open>catch\<close> block has logged an error.\<close>

definition caught :: "js_error \<Rightarrow> world \<Rightarrow> world" where
  "caught e w = snd (console_error [Text ''Error tracking metrics:'', Err e] w)"


section \<open>Rounding is exact on representable values\<close>

lemma round_half_even_of_int: "round_half_even (of_int z) = z"
  by (simp add: round_half_even_def)

lemma bitlen_powi_bounds:
  assumes "0 < p"
  shows "(2::rat) powi (bitlen p - 1) \<le> of_int p \<and> of_int p < (2::rat) powi (bitlen p)"
proof -
  have b: "1 \<le> bitlen p" using assms by (simp add: bitlen_alt_def)
  from bitlen_bounds [OF assms]
  have "2 ^ nat (bitlen p - 1) \<le> p" and "p < 2 ^ nat (bitlen p)" by simp_all
  then have "(of_int (2 ^ nat (bitlen p - 1)) :: rat) \<le> of_int p"
    and "(of_int p :: rat) < of_int (2 ^ nat (bitlen p))"
    by (simp_all only: of_int_le_iff of_int_less_iff)
  then show ?thesis using b by (simp add: power_int_def)
qed

lemma expo_le:
  assumes "0 < x"
  shows "2 powi (expo x) \<le> x"
proof -
  obtain p q where pq: "quotient_of x = (p, q)" by (cases "quotient_of x")
  then have q: "0 < q" and x: "x = of_int p / of_int q"
    using quotient_of_denom_pos quotient_of_div by blast+
  have p: "0 < p" using assms q x by (simp add: zero_less_divide_iff)
  let ?d = "bitlen p - bitlen q"
  show ?thesis
  proof (cases "2 powi ?d \<le> x")
    case True
    then show ?thesis by (simp add: expo_def pq)
  next
    case False
    then have e: "expo x = ?d - 1" by (simp add: expo_def pq)
    have "(2::rat) powi (?d - 1) = 2 powi (bitlen p - 1) / 2 powi (bitlen q)"
      by (simp add: power_int_diff)
    also have "\<dots> \<le> of_int p / 2 powi (bitlen q)"
      using bitlen_powi_bounds [OF p] by (simp add: divide_right_mono)
    also have "\<dots> \<le> of_int p / of_int q"
      using bitlen_powi_bounds [OF q] p q by (simp add: frac_le)
    finally show ?thesis using e x by simp
  qed
qed

lemma binary64_exact:
  assumes "0 < m" "m < 2 ^ 53"
  shows "binary64 (of_int m * 2 powi k) = of_int m * 2 powi k"
proof -
  define x :: rat where "x = of_int m * 2 powi k"
  define e where "e = expo x - 52"
  have pos: "0 < x" using assms by (simp add: x_def)
  have "2 powi (expo x) \<le> x" by (rule expo_le [OF pos])
  also have "x < 2 ^ 53 * 2 powi k" using assms unfolding x_def
    by (simp add: of_int_less_numeral_power_cancel_iff [where 'a = rat, symmetric]
          del: of_int_less_numeral_power_cancel_iff)
  also have "\<dots> = 2 powi (k + 53)" by (simp add: power_int_add)
  finally have lt: "(2::rat) powi (expo x) < 2 powi (k + 53)" .
  have "expo x < k + 53"
  proof (rule ccontr)
    assume "\<not> expo x < k + 53"
    then have "(2::rat) powi (k + 53) \<le> 2 powi (expo x)"
      by (intro power_int_increasing) simp_all
    with lt show False by simp
  qed
  then have "0 \<le> k - e" by (simp add: e_def)
  then obtain j :: nat where "k - e = int j"
    using nonneg_int_cases by blast
  then have j: "k = e + int j" by simp
  have "x / 2 powi e = of_int (m * 2 ^ j)"
    by (simp add: x_def j power_int_add)
  then have "of_int (round_half_even (x / 2 powi e)) * 2 powi e = x"
    by (simp only: round_half_even_of_int) (simp add: x_def j power_int_add)
  then have "binary64 x = x" using pos unfolding binary64_def Let_def e_def
    by (simp add: abs_of_pos)
  then show ?thesis by (simp add: x_def)
qed

lemma binary64_of_nat:
  assumes "n < 2 ^ 53"
  shows "binary64 (of_nat n) = of_nat n"
proof (cases "n = 0")
  case True
  then show ?thesis by (simp add: binary64_def)
next
  case False
  from assms have "int n < 2 ^ 53" by (metis of_nat_less_numeral_power_cancel_iff)
  with False binary64_exact [of "int n" 0] show ?thesis by simp
qed

lemma binary64_quarter:
  assumes "n < 2 ^ 53"
  shows "binary64 (of_nat n / 4) = of_nat n / 4"
proof (cases "n = 0")
  case True
  then show ?thesis by (simp add: binary64_def)
next
  case False
  from assms have "int n < 2 ^ 53" by (metis of_nat_less_numeral_power_cancel_iff)
  with False binary64_exact [of "int n" "- 2"] show ?thesis
    by (simp add: power_int_minus_divide)
qed

lemma COST_PER_MILLION_TOKENS_value: "COST_PER_MILLION_TOKENS = 3 / 16"
  unfolding COST_PER_MILLION_TOKENS_def by code_simp

section \<open>The usage estimator\<close>

lemma ceiling_quarter: "\<lceil>(of_nat n :: rat) / 4\<rceil> = int ((n + 3) div 4)"
proof -
  have "(of_nat n :: rat) / 4 = of_int (int n) / of_int 4" by simp
  then have "\<lceil>(of_nat n :: rat) / 4\<rceil> = - (- int n div 4)"
    by (simp only: ceiling_divide_eq_div)
  also have "\<dots> = int ((n + 3) div 4)" by linarith
  finally show ?thesis .
qed

lemma segment_tokens:
  assumes "length s < 2 ^ 53"
  shows "Math_ceil (js_div (string_length s) CHARS_PER_TOKEN) = of_nat ((length s + 3) div 4)"
proof -
  have "Math_ceil (js_div (string_length s) CHARS_PER_TOKEN)
      = of_int \<lceil>binary64 (of_nat (length s) / 4)\<rceil>"
    by (simp add: Math_ceil_def js_div_def string_length_def CHARS_PER_TOKEN_def)
  also have "\<dots> = of_int \<lceil>(of_nat (length s) :: rat) / 4\<rceil>"
    by (simp only: binary64_quarter [OF assms])
  also have "\<dots> = of_nat ((length s + 3) div 4)"
    by (simp add: ceiling_quarter)
  finally show ?thesis .
qed

lemma segment_bound: "n < 2 ^ 53 \<Longrightarrow> (n + 3) div 4 \<le> (2 ^ 51 :: nat)"
  by simp

text \<open>
  Claim C3. For all strings \<open>a\<close>, \<open>b\<close>, \<open>c\<close> (a JavaScript string has fewer than \<open>2 ^ 53\<close>
  code units), \<open>calculateTokenUsage a b c\<close> returns the ceiling of a quarter of each length
  as \<open>systemTokens\<close>, \<open>userTokens\<close> and \<open>responseTokens\<close>, and the sum of these three
  ceilings as \<open>totalTokens\<close>; an empty string contributes 0 tokens for its segment. The sum
  of the ceilings is not the ceiling of the combined length: the instance below has 4
  against 3.
\<close>

theorem calculateTokenUsage_ceilings:
  assumes "length a < 2 ^ 53" and "length b < 2 ^ 53" and "length c < 2 ^ 53"
  shows "systemTokens (calculateTokenUsage a b c) = of_int \<lceil>of_nat (length a) / (4::rat)\<rceil>
       \<and> userTokens (calculateTokenUsage a b c) = of_int \<lceil>of_nat (length b) / (4::rat)\<rceil>
       \<and> responseTokens (calculateTokenUsage a b c) = of_int \<lceil>of_nat (length c) / (4::rat)\<rceil>
       \<and> totalTokens (calculateTokenUsage a b c) =
           of_int (\<lceil>of_nat (length a) / (4::rat)\<rceil> + \<lceil>of_nat (length b) / (4::rat)\<rceil>
                   + \<lceil>of_nat (length c) / (4::rat)\<rceil>)
       \<and> systemTokens (calculateTokenUsage [] b c) = 0
       \<and> userTokens (calculateTokenUsage a [] c) = 0
       \<and> responseTokens (calculateTokenUsage a b []) = 0"
proof -
  let ?s = "(length a + 3) div 4" and ?u = "(length b + 3) div 4" and ?r = "(length c + 3) div 4"
  have s: "?s \<le> 2 ^ 51" and u: "?u \<le> 2 ^ 51" and r: "?r \<le> 2 ^ 51"
    using assms by (simp_all add: segment_bound)
  have su: "js_add (of_nat ?s) (of_nat ?u) = of_nat (?s + ?u)"
    using s u binary64_of_nat [of "?s + ?u"] by (simp add: js_add_def)
  have sur: "js_add (of_nat (?s + ?u)) (of_nat ?r) = of_nat (?s + ?u + ?r)"
    using s u r binary64_of_nat [of "?s + ?u + ?r"] by (simp add: js_add_def)
  have e: "Math_ceil (js_div (string_length []) CHARS_PER_TOKEN) = 0"
    using segment_tokens [of "[]"] by simp
  show ?thesis
    using su sur e
    by (simp add: calculateTokenUsage_def Let_def segment_tokens [OF assms(1)]
          segment_tokens [OF assms(2)] segment_tokens [OF assms(3)] ceiling_quarter)
qed

theorem calculateTokenUsage_ceilings_witness:
  "length ''a'' < 2 ^ 53 \<and> length ''bcdef'' < 2 ^ 53 \<and> length ''ghij'' < 2 ^ 53
   \<and> systemTokens (calculateTokenUsage ''a'' ''bcdef'' ''ghij'') = 1
   \<and> userTokens (calculateTokenUsage ''a'' ''bcdef'' ''ghij'') = 2
   \<and> responseTokens (calculateTokenUsage ''a'' ''bcdef'' ''ghij'') = 1
   \<and> totalTokens (calculateTokenUsage ''a'' ''bcdef'' ''ghij'') = 4
   \<and> \<lceil>of_nat (length (''a'' @ ''bcdef'' @ ''ghij'')) / (4::rat)\<rceil> = 3"
  using calculateTokenUsage_ceilings [of "''a''" "''bcdef''" "''ghij''"]
    ceiling_quarter [of 1] ceiling_quarter [of 5] ceiling_quarter [of 4] ceiling_quarter [of 10]
  by simp


section \<open>The cost estimator\<close>

text \<open>
  Each rounding is off by at most one part in \<open>2 ^ 53\<close>, so away from the exact ties
  (\<open>t mod 16 = 8\<close>, where three sixteenths of \<open>t\<close> end in one half) the function returns the
  number nearest to the exact cost rounded half up to 6 decimal places.
\<close>

lemma round_half_even_error: "\<bar>of_int (round_half_even y) - y\<bar> \<le> 1 / 2"
proof -
  have "of_int \<lfloor>y\<rfloor> \<le> y" and "y < of_int \<lfloor>y\<rfloor> + 1" by linarith+
  then show ?thesis
    by (auto simp: round_half_even_def Let_def)
qed

lemma binary64_error:
  assumes "0 < x"
  shows "\<bar>binary64 x - x\<bar> \<le> x / 2 ^ 53"
proof -
  define e where "e = expo x - 52"
  define n where "n = round_half_even (x / 2 powi e)"
  have p: "(0::rat) < 2 powi e" by simp
  have b: "binary64 x = of_int n * 2 powi e"
    using assms by (simp add: binary64_def Let_def e_def n_def abs_of_pos)
  have "\<bar>of_int n - x / 2 powi e\<bar> \<le> 1 / 2"
    unfolding n_def by (rule round_half_even_error)
  then have "\<bar>of_int n - x / 2 powi e\<bar> * 2 powi e \<le> 1 / 2 * 2 powi e"
    using p by (intro mult_right_mono) simp_all
  moreover have "\<bar>of_int n - x / 2 powi e\<bar> * 2 powi e = \<bar>of_int n * 2 powi e - x\<bar>"
  proof -
    have "\<bar>of_int n - x / 2 powi e\<bar> * 2 powi e = \<bar>(of_int n - x / 2 powi e) * 2 powi e\<bar>"
      using p by (simp add: abs_mult)
    also have "(of_int n - x / 2 powi e) * 2 powi e = of_int n * 2 powi e - x"
      using p by (simp add: field_simps)
    finally show ?thesis .
  qed
  moreover have "1 / 2 * (2::rat) powi e = 2 powi (expo x) / 2 ^ 53"
  proof -
    have "(2::rat) powi (e + 52) = 2 powi e * 2 powi 52"
      by (simp add: power_int_add)
    moreover have "e + 52 = expo x" by (simp add: e_def)
    ultimately have "(2::rat) powi (expo x) = 2 powi e * 2 ^ 52" by simp
    then show ?thesis by simp
  qed
  moreover have "(2::rat) powi (expo x) / 2 ^ 53 \<le> x / 2 ^ 53"
    using expo_le [OF assms] by (simp add: divide_right_mono)
  ultimately show ?thesis using b by simp
qed

lemma binary64_bounds:
  assumes "0 < x"
  shows "x * (1 - 1 / 2 ^ 53) \<le> binary64 x" and "binary64 x \<le> x * (1 + 1 / 2 ^ 53)"
proof -
  have e: "x * (1 - 1 / 2 ^ 53) = x - x / 2 ^ 53" "x * (1 + 1 / 2 ^ 53) = x + x / 2 ^ 53"
    by (simp_all add: algebra_simps)
  from binary64_error [OF assms]
  have "binary64 x - x \<le> x / 2 ^ 53" and "- (x / 2 ^ 53) \<le> binary64 x - x"
    by linarith+
  then show "x * (1 - 1 / 2 ^ 53) \<le> binary64 x" and "binary64 x \<le> x * (1 + 1 / 2 ^ 53)"
    unfolding e by linarith+
qed

lemma half_up_stable:
  fixes y :: rat
  assumes "t mod 16 \<noteq> (8::nat)" and "\<bar>y - 3 * of_nat t / 16\<bar> < 1 / 16"
  shows "\<lfloor>y + 1 / 2\<rfloor> = \<lfloor>3 * of_nat t / 16 + 1 / (2::rat)\<rfloor>"
proof -
  define k where "k = (3 * int t + 8) div 16"
  define r where "r = (3 * int t + 8) mod 16"
  have d: "3 * int t + 8 = 16 * k + r" by (simp add: k_def r_def)
  have "r \<noteq> 0"
  proof
    assume "r = 0"
    then have "(3 * int t + 8) mod 16 = 0" by (simp add: r_def)
    then have "int t mod 16 = 8" by presburger
    then have "t mod 16 = 8" by (metis nat_int of_nat_mod of_nat_numeral nat_numeral)
    with assms(1) show False by simp
  qed
  moreover have "0 \<le> r" "r < 16" by (simp_all add: r_def)
  ultimately have r: "1 \<le> r" "r \<le> 15" by simp_all
  have "(3 * of_nat t + 8 :: rat) = of_int (3 * int t + 8)" by simp
  also have "\<dots> = 16 * of_int k + of_int r" by (simp only: d; simp)
  finally have e: "3 * of_nat t / 16 + 1 / (2::rat) = of_int k + of_int r / 16" by simp
  have lo: "(1::rat) \<le> of_int r" and hi: "(of_int r :: rat) \<le> 15"
    using r by simp_all
  have "of_int k \<le> 3 * of_nat t / 16 + 1 / (2::rat)"
    and "3 * of_nat t / 16 + 1 / (2::rat) < of_int k + 1"
    unfolding e using lo hi by simp_all
  then have exact: "\<lfloor>3 * of_nat t / 16 + 1 / (2::rat)\<rfloor> = k"
    by (rule floor_unique)
  have near: "y - 3 * of_nat t / 16 < 1 / 16" "- (1 / 16) < y - 3 * of_nat t / 16"
    using assms(2) by linarith+
  have "of_int k \<le> y + 1 / 2" and "y + 1 / 2 < of_int k + 1"
    using e lo hi near by linarith+
  then have "\<lfloor>y + 1 / 2\<rfloor> = k"
    by (rule floor_unique)
  with exact show ?thesis by simp
qed

lemma estimateApiCost_off_ties:
  assumes "t < 2 ^ 48" and "t mod 16 \<noteq> 8"
  shows "estimateApiCost (of_nat t)
       = binary64 (of_int \<lfloor>3 * of_nat t / 16 + 1 / (2::rat)\<rfloor> / 1000000)"
proof (cases "t = 0")
  case True
  then show ?thesis
    by (simp add: estimateApiCost_def js_mul_def js_div_def Math_round_def binary64_def)
next
  case False
  define x0 :: rat where "x0 = of_nat t / 1000000"
  define x1 where "x1 = binary64 x0"
  define x2 where "x2 = binary64 (x1 * (3 / 16))"
  define x3 where "x3 = binary64 (x2 * 1000000)"
  have t: "(of_nat t :: rat) < 2 ^ 48"
    using assms(1) by (metis of_nat_less_numeral_power_cancel_iff)
  have p0: "0 < x0" using False by (simp add: x0_def)
  have b1: "x0 * (1 - 1 / 2 ^ 53) \<le> x1" "x1 \<le> x0 * (1 + 1 / 2 ^ 53)"
    unfolding x1_def using binary64_bounds [OF p0] by simp_all
  have p1: "0 < x1" using b1(1) p0 by (simp add: zero_less_mult_iff less_le_trans)
  then have p1': "0 < x1 * (3 / 16)" by simp
  have b2: "x1 * (3 / 16) * (1 - 1 / 2 ^ 53) \<le> x2" "x2 \<le> x1 * (3 / 16) * (1 + 1 / 2 ^ 53)"
    unfolding x2_def using binary64_bounds [OF p1'] by simp_all
  have p2: "0 < x2" using b2(1) p1' by (simp add: zero_less_mult_iff less_le_trans)
  then have p2': "0 < x2 * 1000000" by simp
  have b3: "x2 * 1000000 * (1 - 1 / 2 ^ 53) \<le> x3" "x3 \<le> x2 * 1000000 * (1 + 1 / 2 ^ 53)"
    unfolding x3_def using binary64_bounds [OF p2'] by simp_all
  have x0: "of_nat t = x0 * 1000000" by (simp add: x0_def)
  have up: "x3 - 3 * of_nat t / 16 < 1 / 16"
    using b1 b2 b3 p0 t unfolding x0 by (simp; linarith)
  have lo: "3 * of_nat t / 16 - x3 < 1 / 16"
    using b1 b2 b3 p0 t unfolding x0 by (simp; linarith)
  from up lo have "\<bar>x3 - 3 * of_nat t / 16\<bar> < 1 / 16"
    by linarith
  from half_up_stable [OF assms(2) this]
  have "Math_round x3 = of_int \<lfloor>3 * of_nat t / 16 + 1 / (2::rat)\<rfloor>"
    by (simp add: Math_round_def)
  then show ?thesis
    by (simp add: estimateApiCost_def js_mul_def js_div_def Let_def COST_PER_MILLION_TOKENS_value
          x0_def x1_def x2_def x3_def)
qed

text \<open>
  Read as the 6-decimal rounding of the computed number \<open>costUsd\<close> rather than of the exact
  product, the statement fails elsewhere: at 56 the function returns 0.000011 while
  \<open>costUsd\<close> lies below 0.0000105.
\<close>

lemma estimateApiCost_56:
  "estimateApiCost 56 = binary64 (11 / 1000000)
   \<and> js_mul (js_div 56 1000000) COST_PER_MILLION_TOKENS * 1000000 < 21 / 2"
  by code_simp

lemma estimateApiCost_particular:
  "estimateApiCost 1000000 = 1875 / 10000 \<and> estimateApiCost 0 = 0"
  by code_simp

text \<open>
  Claim C4. For every non-negative integer \<open>t\<close>, \<open>estimateApiCost t\<close> is \<open>t / 1000000 * 0.1875\<close>
  rounded to 6 decimal places. The two particular values of the claim hold
  (\<open>estimateApiCost_particular\<close>), the general statement does not: at \<open>t = 296\<close> the exact cost
  is 0.0000555, which every rounding convention takes to 0.000056, and the function
  returns the number 0.000055, because the quotient by 1000000 and the product with
  1000000 each round, and the product arrives just below 55.5.
\<close>

theorem estimateApiCost_misrounds_tie:
  "estimateApiCost 296 = binary64 (55 / 1000000)
   \<and> estimateApiCost 296 \<noteq> binary64 (56 / 1000000)
   \<and> (296 / 1000000) * (1875 / 10000) * 1000000 = (111 / 2 :: rat)
   \<and> Math_round (111 / 2) = 56
   \<and> round_half_even (111 / 2) = 56
   \<and> js_mul (js_mul (js_div 296 1000000) COST_PER_MILLION_TOKENS) 1000000 < 111 / 2"
  by code_simp


section \<open>Determinism of the estimators\<close>

text \<open>
  Claim C8. \<open>calculateTokenUsage\<close> and \<open>estimateApiCost\<close> are deterministic and stateless.
  A call of either, in any state of the process, returns without error the value that
  the arguments alone determine and leaves the state as it was; so two calls in a row
  with the same arguments return identical outputs, and the output is the same in any two
  states: no hidden state influences the result.
\<close>

theorem estimators_deterministic:
  "calculateTokenUsage_call a b c w = (Inr (calculateTokenUsage a b c), w)
   \<and> estimateApiCost_call t w = (Inr (estimateApiCost t), w)
   \<and> call_twice (calculateTokenUsage_call a b c) w
       = (Inr (calculateTokenUsage a b c, calculateTokenUsage a b c), w)
   \<and> call_twice (estimateApiCost_call t) w = (Inr (estimateApiCost t, estimateApiCost t), w)
   \<and> fst (calculateTokenUsage_call a b c w) = fst (calculateTokenUsage_call a b c w')
   \<and> fst (estimateApiCost_call t w) = fst (estimateApiCost_call t w')"
  by (simp add: calculateTokenUsage_call_def estimateApiCost_call_def call_twice_def
        calculateTokenUsage_def estimateApiCost_def CHARS_PER_TOKEN_def
        COST_PER_MILLION_TOKENS_def bindJ_def returnJ_def Let_def)


section \<open>The reporter, path by path\<close>

lemmas js_defs = returnJ_def throwJ_def bindJ_def tryCatch_def console_log_def console_error_def
  fetch_def response_json_def get_status_def import_lib_database_def createAIMetrics_def
  process_env_get_def

lemma requests_differ: "track_request w m \<noteq> refresh_request w'"
  by (simp add: track_request_def refresh_request_def)

lemma track_request_frame [simp]:
  "track_request (w\<lparr>events := es\<rparr>) m = track_request w m"
  "track_request (w\<lparr>console := cs\<rparr>) m = track_request w m"
  by (simp_all add: track_request_def mlopsServiceUrl_def)

lemma refresh_request_frame [simp]:
  "refresh_request (w\<lparr>events := es\<rparr>) = refresh_request w"
  "refresh_request (w\<lparr>console := cs\<rparr>) = refresh_request w"
  by (simp_all add: refresh_request_def mlopsServiceUrl_def)

lemma caught_frame [simp]:
  "events (caught e w) = events w"
  "heap (caught e w) = heap w"
  "process_env (caught e w) = process_env w"
  "console (caught e w) = console w @ [Console_error [Text ''Error tracking metrics:'', Err e]]"
  by (simp_all add: caught_def console_error_def)

text \<open>The final state of \<open>trackMetrics\<close>, by the answers of the outside.\<close>

lemma trackMetrics_cases:
  "trackMetrics io m w =
    (Inr (),
     case import_database io of
       Some e \<Rightarrow> caught e w
     | None \<Rightarrow>
        let w1 = w\<lparr>events := events w @ [Sql_insert (insert_values (metrics_literal (heap w m)))]\<rparr>
        in case sql io (insert_values (metrics_literal (heap w m))) of
             Inl e \<Rightarrow> caught e w1
           | Inr rows \<Rightarrow>
              let w2 = w1\<lparr>events := events w1 @ [Fetch (track_request w m)]\<rparr>
              in case fetch_result io (track_request w m) of
                   Inl e \<Rightarrow> caught e w2
                 | Inr resp \<Rightarrow>
                    if \<not> ok resp then caught (Error_responded_with_status (status resp)) w2
                    else case json resp of
                           Inl e \<Rightarrow> caught e w2
                         | Inr Json_null \<Rightarrow> caught Type_error w2
                         | Inr (Json_value s) \<Rightarrow>
                            let w3 = w2\<lparr>console := console w2 @
                                         [Console_log [Text ''Metrics tracked successfully:'', Status s]],
                                       events := events w2 @ [Fetch (refresh_request w)]\<rparr>
                            in case fetch_result io (refresh_request w) of
                                 Inl e \<Rightarrow> w3\<lparr>console := console w3 @
                                            [Console_log [Text ''Metrics refresh skipped:'', Err e]]\<rparr>
                               | Inr r \<Rightarrow> w3)"
  by (simp add: trackMetrics_def js_defs Let_def caught_def track_request_def refresh_request_def
        mlopsServiceUrl_def split: sum.split option.split json_value.split)

lemma trackMetrics_send_only_cases:
  "trackMetrics_send_only io m w =
    (Inr (),
     let w1 = w\<lparr>events := events w @ [Fetch (track_request_no_timeout w m)]\<rparr>
     in case fetch_result io (track_request_no_timeout w m) of
          Inl e \<Rightarrow> caught e w1
        | Inr resp \<Rightarrow>
           if \<not> ok resp then caught (Error_responded_with_status (status resp)) w1
           else case json resp of
                  Inl e \<Rightarrow> caught e w1
                | Inr Json_null \<Rightarrow> caught Type_error w1
                | Inr (Json_value s) \<Rightarrow>
                   w1\<lparr>console := console w1 @
                        [Console_log [Text ''Metrics tracked successfully:'', Status s]]\<rparr>)"
  by (simp add: trackMetrics_send_only_def js_defs Let_def caught_def
        track_request_no_timeout_def mlopsServiceUrl_def
        split: sum.split option.split json_value.split)

lemma sample_simps:
  "import_database io_ok = None" "sql io_ok r = Inr [r]" "fetch_result io_ok q = Inr response_200"
  "import_database io_db_down = None" "sql io_db_down r = Inl (Database_error ''connection refused'')"
  "import_database io_http_500 = None" "sql io_http_500 r = Inr [r]"
  "fetch_result io_http_500 q = Inr response_500"
  "ok response_200" "\<not> ok response_500" "json response_200 = Inr (Json_value (Some ''success''))"
  "status response_500 = 500"
  "events world0 = []" "console world0 = []" "heap world0 a = sample_metrics"
  "process_env world0 k = None"
  "events world_empty_url = []" "console world_empty_url = []" "heap world_empty_url a = sample_metrics"
  "process_env world_empty_url ''MLOPS_SERVICE_URL'' = Some []"
  "events world_custom_url = []" "console world_custom_url = []"
  "heap world_custom_url a = sample_metrics"
  "process_env world_custom_url ''MLOPS_SERVICE_URL'' = Some ''http://mlops:9000''"
  by (simp_all add: io_ok_def io_db_down_def io_http_500_def response_200_def response_500_def
        ok_def world0_def world_empty_url_def world_custom_url_def)

lemma with_refresh_result_simps [simp]:
  "import_database (with_refresh_result io w r) = import_database io"
  "sql (with_refresh_result io w r) = sql io"
  "fetch_result (with_refresh_result io w r) (track_request w m) = fetch_result io (track_request w m)"
  "fetch_result (with_refresh_result io w r) (refresh_request w) = r"
  using requests_differ [of w m w] by (simp_all add: with_refresh_result_def)


section \<open>No error escapes\<close>

lemma tryCatch_console_error:
  fixes body :: "unit js"
  shows "fst (tryCatch body (\<lambda>e. console_error (xs e)) w) = Inr ()"
  by (cases "body w"; cases "fst (body w)") (auto simp: tryCatch_def console_error_def)

text \<open>
  Claim C1. For every record and every behaviour of the persistence call, the publish call
  and the refresh call (success, thrown error, non-2xx response, timeout), \<open>trackMetrics\<close>
  completes without raising an error to its caller: the result is \<open>Inr ()\<close>, never \<open>Inl e\<close>.
  This holds for the reporter that stores first and for the one that only sends, and
  follows from the outer \<open>try\<close>/\<open>catch\<close> alone, whose handler only logs.
\<close>

theorem trackMetrics_never_throws:
  "fst (trackMetrics io m w) = Inr () \<and> fst (trackMetrics_send_only io m w) = Inr ()"
  unfolding trackMetrics_def trackMetrics_send_only_def
  by (simp add: tryCatch_console_error)


section \<open>A persistence failure\<close>

text \<open>
  Claim C2, as stated: if the persistence step fails, \<open>trackMetrics\<close> still attempts the
  publish step. It does not: with the database down, the only call made is the INSERT, and
  no request is sent to \<open>/track\<close>.
\<close>

theorem persistence_failure_stops_publish_counterexample:
  "sql io_db_down (insert_values (metrics_literal (heap world0 0)))
     = Inl (Database_error ''connection refused'')
   \<and> new_events world0 (snd (trackMetrics io_db_down 0 world0))
       = [Sql_insert (insert_values (metrics_literal sample_metrics))]
   \<and> Fetch (track_request world0 0) \<notin> set (events (snd (trackMetrics io_db_down 0 world0)))"
  by (simp add: trackMetrics_cases new_events_def sample_simps Let_def)

text \<open>
  Claim C2, amended. If the persistence step (\<open>createAIMetrics\<close>) fails, the failure is
  caught by the one outer boundary of \<open>trackMetrics\<close>: the error is logged with
  \<open>console.error\<close>, \<open>trackMetrics\<close> completes without error, and neither the publish step nor
  the refresh step is attempted: the INSERT is the only call made.
\<close>

theorem persistence_failure_caught_at_outer_boundary:
  assumes "import_database io = None"
    and "sql io (insert_values (metrics_literal (heap w m))) = Inl e"
  shows "trackMetrics io m w =
     (Inr (), w\<lparr>events := events w @ [Sql_insert (insert_values (metrics_literal (heap w m)))],
               console := console w @ [Console_error [Text ''Error tracking metrics:'', Err e]]\<rparr>)"
  using assms by (simp add: trackMetrics_cases Let_def caught_def console_error_def)

theorem persistence_failure_caught_at_outer_boundary_witness:
  "import_database io_db_down = None
   \<and> sql io_db_down (insert_values (metrics_literal (heap world0 0)))
       = Inl (Database_error ''connection refused'')
   \<and> trackMetrics io_db_down 0 world0 =
     (Inr (), world0\<lparr>events := [Sql_insert (insert_values (metrics_literal sample_metrics))],
               console := [Console_error [Text ''Error tracking metrics:'',
                                          Err (Database_error ''connection refused'')]]\<rparr>)"
  using persistence_failure_caught_at_outer_boundary
          [of io_db_down world0 0 "Database_error ''connection refused''"]
  by (simp add: sample_simps)

section \<open>Order of the steps\<close>

text \<open>
  Claim C5. Within one invocation of \<open>trackMetrics\<close> the persist step precedes the publish
  step, which precedes the refresh step: the calls made are an initial part of the
  sequence INSERT, POST \<open>/track\<close>, POST \<open>/refresh-metrics\<close>. The refresh request is attempted
  only after a publish that succeeded: if it is among the calls, the publish request was
  answered with a 2xx status; so it is never attempted when the publish fails.
\<close>

theorem trackMetrics_order:
  "events (snd (trackMetrics io m w)) = events w @ new_events w (snd (trackMetrics io m w))
   \<and> prefix (new_events w (snd (trackMetrics io m w)))
        [Sql_insert (insert_values (metrics_literal (heap w m))),
         Fetch (track_request w m), Fetch (refresh_request w)]
   \<and> (Fetch (refresh_request w) \<in> set (new_events w (snd (trackMetrics io m w)))
        \<longrightarrow> (\<exists>r. fetch_result io (track_request w m) = Inr r \<and> ok r))"
  using requests_differ [of w m w]
  by (simp add: trackMetrics_cases new_events_def Let_def
        split: sum.split option.split json_value.split)

theorem trackMetrics_order_witness:
  "new_events world0 (snd (trackMetrics io_ok 0 world0)) =
        [Sql_insert (insert_values (metrics_literal sample_metrics)),
         Fetch (track_request world0 0), Fetch (refresh_request world0)]
   \<and> Fetch (refresh_request world0) \<in> set (new_events world0 (snd (trackMetrics io_ok 0 world0)))
   \<and> fetch_result io_ok (track_request world0 0) = Inr response_200 \<and> ok response_200
   \<and> fetch_result io_http_500 (track_request world0 0) = Inr response_500 \<and> \<not> ok response_500
   \<and> Fetch (refresh_request world0)
        \<notin> set (new_events world0 (snd (trackMetrics io_http_500 0 world0)))"
  using trackMetrics_order [of io_ok 0 world0] trackMetrics_order [of io_http_500 0 world0]
  by (simp add: trackMetrics_cases new_events_def sample_simps Let_def)


section \<open>A refresh failure\<close>

text \<open>
  Claim C6. A failure of the refresh step (a thrown error or a timeout, which the inner
  \<open>catch\<close> logs with \<open>console.log\<close>, or a non-2xx answer, which is not looked at) never
  affects the outcome of the persist and publish steps nor the completion of
  \<open>trackMetrics\<close>: whatever the refresh request is answered with, \<open>trackMetrics\<close> completes
  without error, the calls made are the same, and the console is the same apart from the
  line "Metrics refresh skipped"; in particular the outer \<open>catch\<close> logs the same.
\<close>

theorem refresh_failure_isolated:
  "fst (trackMetrics (with_refresh_result io w r) m w) = Inr ()
   \<and> events (snd (trackMetrics (with_refresh_result io w r) m w))
       = events (snd (trackMetrics (with_refresh_result io w r') m w))
   \<and> not_refresh_skipped (console (snd (trackMetrics (with_refresh_result io w r) m w)))
       = not_refresh_skipped (console (snd (trackMetrics (with_refresh_result io w r') m w)))"
  by (simp add: trackMetrics_cases Let_def not_refresh_skipped_def refresh_skipped_def
        split: sum.split option.split json_value.split)

theorem refresh_failure_isolated_witness:
  "trackMetrics (with_refresh_result io_ok world0 (Inl Timeout_error)) 0 world0 =
     (Inr (), world0\<lparr>events := [Sql_insert (insert_values (metrics_literal sample_metrics)),
                                 Fetch (track_request world0 0), Fetch (refresh_request world0)],
                      console := [Console_log [Text ''Metrics tracked successfully:'',
                                               Status (Some ''success'')],
                                  Console_log [Text ''Metrics refresh skipped:'',
                                               Err Timeout_error]]\<rparr>)
   \<and> events (snd (trackMetrics (with_refresh_result io_ok world0 (Inl Timeout_error)) 0 world0))
       = events (snd (trackMetrics (with_refresh_result io_ok world0 (Inr response_500)) 0 world0))
   \<and> not_refresh_skipped
         (console (snd (trackMetrics (with_refresh_result io_ok world0 (Inl Timeout_error)) 0 world0)))
       = [Console_log [Text ''Metrics tracked successfully:'', Status (Some ''success'')]]
   \<and> console (snd (trackMetrics (with_refresh_result io_ok world0 (Inr response_500)) 0 world0))
       = [Console_log [Text ''Metrics tracked successfully:'', Status (Some ''success'')]]"
  using refresh_failure_isolated [of io_ok world0 "Inl Timeout_error" 0 "Inr response_500"]
  by (simp add: trackMetrics_cases sample_simps Let_def not_refresh_skipped_def
        refresh_skipped_def world0_def)



section \<open>The requests\<close>

text \<open>
  Claim C7, as stated: the publish step posts to \<open>base_url + "/track"\<close> with a 5000 ms
  timeout, where \<open>base_url\<close> is the environment variable \<open>MLOPS_SERVICE_URL\<close>, or
  \<open>http://localhost:5001\<close> when it is unset. With the variable set to the empty string the
  request goes to \<open>http://localhost:5001/track\<close>, not to \<open>/track\<close>; and the reporter that
  only sends puts no timeout on the request.
\<close>

theorem publish_request_counterexample:
  "process_env world_empty_url ''MLOPS_SERVICE_URL'' = Some []
   \<and> new_events world_empty_url (snd (trackMetrics io_ok 0 world_empty_url)) =
       [Sql_insert (insert_values (metrics_literal sample_metrics)),
        Fetch \<lparr>url = ''http://localhost:5001/track'', http_method = ''POST'',
               headers = [(''Content-Type'', ''application/json'')],
               body = Json_metrics sample_metrics, timeout_ms = Some 5000\<rparr>,
        Fetch \<lparr>url = ''http://localhost:5001/refresh-metrics'', http_method = ''POST'',
               headers = [(''Content-Type'', ''application/json'')],
               body = Json_trigger ''new_metrics'', timeout_ms = Some 3000\<rparr>]
   \<and> ''http://localhost:5001/track'' \<noteq> [] @ ''/track''
   \<and> new_events world0 (snd (trackMetrics_send_only io_ok 0 world0)) =
       [Fetch \<lparr>url = ''http://localhost:5001/track'', http_method = ''POST'',
               headers = [(''Content-Type'', ''application/json'')],
               body = Json_metrics sample_metrics, timeout_ms = None\<rparr>]"
  by (simp add: trackMetrics_cases trackMetrics_send_only_cases new_events_def sample_simps Let_def
        track_request_def refresh_request_def track_request_no_timeout_def mlopsServiceUrl_def
        or_string_def)

text \<open>
  Claim C7, amended. In the reporter that stores first, once the record is stored, the
  publish step sends an HTTP POST to \<open>base_url + "/track"\<close> with Content-Type
  application/json, the record as body and a 5000 ms timeout, where \<open>base_url\<close> is
  \<open>MLOPS_SERVICE_URL\<close> when that is set and not empty, and \<open>http://localhost:5001\<close> when it
  is unset or empty; a non-2xx status is a failure of the publish step (the outer \<open>catch\<close>
  logs it and nothing is sent after it); the refresh POST, when sent, carries a 3000 ms
  timeout. The reporter that only sends posts the same request with no timeout, and
  nothing else; there too a non-2xx status is a failure of the publish step, logged by
  the outer \<open>catch\<close>.
\<close>

theorem publish_request_shape:
  assumes "import_database io = None"
    and "sql io (insert_values (metrics_literal (heap w m))) = Inr rows"
  shows "mlopsServiceUrl w =
           (case process_env w ''MLOPS_SERVICE_URL'' of
              None \<Rightarrow> ''http://localhost:5001''
            | Some u \<Rightarrow> if u = [] then ''http://localhost:5001'' else u)
       \<and> take 2 (new_events w (snd (trackMetrics io m w))) =
           [Sql_insert (insert_values (metrics_literal (heap w m))),
            Fetch \<lparr>url = mlopsServiceUrl w @ ''/track'', http_method = ''POST'',
                   headers = [(''Content-Type'', ''application/json'')],
                   body = Json_metrics (heap w m), timeout_ms = Some 5000\<rparr>]
       \<and> (fetch_result io (track_request w m) = Inr resp
            \<and> \<not> (200 \<le> status resp \<and> status resp \<le> 299)
            \<longrightarrow> new_events w (snd (trackMetrics io m w)) =
                  [Sql_insert (insert_values (metrics_literal (heap w m))), Fetch (track_request w m)]
              \<and> console (snd (trackMetrics io m w)) = console w @
                  [Console_error [Text ''Error tracking metrics:'',
                                  Err (Error_responded_with_status (status resp))]])
       \<and> (drop 2 (new_events w (snd (trackMetrics io m w))) = []
          \<or> drop 2 (new_events w (snd (trackMetrics io m w))) =
              [Fetch \<lparr>url = mlopsServiceUrl w @ ''/refresh-metrics'', http_method = ''POST'',
                      headers = [(''Content-Type'', ''application/json'')],
                      body = Json_trigger ''new_metrics'', timeout_ms = Some 3000\<rparr>])
       \<and> new_events w (snd (trackMetrics_send_only io m w)) =
           [Fetch \<lparr>url = mlopsServiceUrl w @ ''/track'', http_method = ''POST'',
                   headers = [(''Content-Type'', ''application/json'')],
                   body = Json_metrics (heap w m), timeout_ms = None\<rparr>]
       \<and> (fetch_result io (track_request_no_timeout w m) = Inr resp2
            \<and> \<not> (200 \<le> status resp2 \<and> status resp2 \<le> 299)
            \<longrightarrow> trackMetrics_send_only io m w =
                  (Inr (), w\<lparr>events := events w @ [Fetch (track_request_no_timeout w m)],
                            console := console w @
                              [Console_error [Text ''Error tracking metrics:'',
                                 Err (Error_responded_with_status (status resp2))]]\<rparr>))"
proof -
  have base: "mlopsServiceUrl w =
           (case process_env w ''MLOPS_SERVICE_URL'' of
              None \<Rightarrow> ''http://localhost:5001''
            | Some u \<Rightarrow> if u = [] then ''http://localhost:5001'' else u)"
    by (simp add: mlopsServiceUrl_def or_string_def)
  have t: "track_request w m = \<lparr>url = mlopsServiceUrl w @ ''/track'', http_method = ''POST'',
                   headers = [(''Content-Type'', ''application/json'')],
                   body = Json_metrics (heap w m), timeout_ms = Some 5000\<rparr>"
    by (simp add: track_request_def)
  have r: "refresh_request w = \<lparr>url = mlopsServiceUrl w @ ''/refresh-metrics'', http_method = ''POST'',
                      headers = [(''Content-Type'', ''application/json'')],
                      body = Json_trigger ''new_metrics'', timeout_ms = Some 3000\<rparr>"
    by (simp add: refresh_request_def)
  have n: "track_request_no_timeout w m = \<lparr>url = mlopsServiceUrl w @ ''/track'', http_method = ''POST'',
                   headers = [(''Content-Type'', ''application/json'')],
                   body = Json_metrics (heap w m), timeout_ms = None\<rparr>"
    by (simp add: track_request_no_timeout_def)
  have two: "take 2 (new_events w (snd (trackMetrics io m w))) =
           [Sql_insert (insert_values (metrics_literal (heap w m))), Fetch (track_request w m)]"
    using assms
    by (simp add: trackMetrics_cases new_events_def Let_def
          split: sum.split option.split json_value.split)
  have bad: "fetch_result io (track_request w m) = Inr resp
            \<and> \<not> (200 \<le> status resp \<and> status resp \<le> 299)
            \<longrightarrow> new_events w (snd (trackMetrics io m w)) =
                  [Sql_insert (insert_values (metrics_literal (heap w m))), Fetch (track_request w m)]
              \<and> console (snd (trackMetrics io m w)) = console w @
                  [Console_error [Text ''Error tracking metrics:'',
                                  Err (Error_responded_with_status (status resp))]]"
    using assms by (simp add: trackMetrics_cases new_events_def Let_def ok_def)
  have rest: "drop 2 (new_events w (snd (trackMetrics io m w))) = []
          \<or> drop 2 (new_events w (snd (trackMetrics io m w))) = [Fetch (refresh_request w)]"
    using assms
    by (simp add: trackMetrics_cases new_events_def Let_def
          split: sum.split option.split json_value.split)
  have only: "new_events w (snd (trackMetrics_send_only io m w))
                = [Fetch (track_request_no_timeout w m)]"
    by (simp add: trackMetrics_send_only_cases new_events_def Let_def
          split: sum.split option.split json_value.split)
  have bad_only: "fetch_result io (track_request_no_timeout w m) = Inr resp2
            \<and> \<not> (200 \<le> status resp2 \<and> status resp2 \<le> 299)
            \<longrightarrow> trackMetrics_send_only io m w =
                  (Inr (), w\<lparr>events := events w @ [Fetch (track_request_no_timeout w m)],
                            console := console w @
                              [Console_error [Text ''Error tracking metrics:'',
                                 Err (Error_responded_with_status (status resp2))]]\<rparr>)"
    by (simp add: trackMetrics_send_only_cases Let_def ok_def caught_def console_error_def)
  show ?thesis
    using base two bad rest only bad_only unfolding t r n by blast
qed

theorem publish_request_shape_witness:
  "import_database io_http_500 = None
   \<and> sql io_http_500 (insert_values (metrics_literal (heap world_custom_url 0)))
       = Inr [insert_values (metrics_literal sample_metrics)]
   \<and> fetch_result io_http_500 (track_request world_custom_url 0) = Inr response_500
   \<and> fetch_result io_http_500 (track_request_no_timeout world_custom_url 0) = Inr response_500
   \<and> \<not> (200 \<le> status response_500 \<and> status response_500 \<le> 299)
   \<and> new_events world_custom_url (snd (trackMetrics io_http_500 0 world_custom_url)) =
       [Sql_insert (insert_values (metrics_literal sample_metrics)),
        Fetch \<lparr>url = ''http://mlops:9000/track'', http_method = ''POST'',
               headers = [(''Content-Type'', ''application/json'')],
               body = Json_metrics sample_metrics, timeout_ms = Some 5000\<rparr>]
   \<and> console (snd (trackMetrics io_http_500 0 world_custom_url)) =
       [Console_error [Text ''Error tracking metrics:'', Err (Error_responded_with_status 500)]]
   \<and> trackMetrics_send_only io_http_500 0 world_custom_url =
       (Inr (), world_custom_url
          \<lparr>events := [Fetch \<lparr>url = ''http://mlops:9000/track'', http_method = ''POST'',
                              headers = [(''Content-Type'', ''application/json'')],
                              body = Json_metrics sample_metrics, timeout_ms = None\<rparr>],
           console := [Console_error [Text ''Error tracking metrics:'',
                                      Err (Error_responded_with_status 500)]]\<rparr>)"
  using publish_request_shape [where io = io_http_500 and w = world_custom_url and m = 0
          and rows = "[insert_values (metrics_literal sample_metrics)]"
          and resp = response_500 and ?resp2.0 = response_500]
  by (simp add: sample_simps track_request_def track_request_no_timeout_def mlopsServiceUrl_def
        or_string_def)


section \<open>The record is only read\<close>

text \<open>
  Claim C9. \<open>trackMetrics\<close> never mutates the record passed to it: whatever the outcome of
  the I/O steps, every object on the heap, the record among them, is after the call what
  it was before. The database layer receives a new object literal and \<open>fetch\<close> a
  serialisation, so no callee holds a reference to the record either.
\<close>

theorem trackMetrics_reads_only:
  "heap (snd (trackMetrics io m w)) = heap w
   \<and> heap (snd (trackMetrics io m w)) m = heap w m
   \<and> heap (snd (trackMetrics_send_only io m w)) = heap w"
  by (simp add: trackMetrics_cases trackMetrics_send_only_cases Let_def
        split: sum.split option.split json_value.split)


section \<open>The value stored for an absent \<open>appointment_booked\<close>\<close>

text \<open>
  Claim C10. \<open>createAIMetrics\<close> issues one INSERT with the values of \<open>insert_values\<close>; for a
  record whose optional field \<open>appointment_booked\<close> is absent the value given for the column
  \<open>appointment_booked\<close> is the boolean false, not an undefined or null value, and a record
  with \<open>appointment_booked\<close> true or false has that same boolean inserted.
\<close>

theorem createAIMetrics_appointment_booked:
  "events (snd (createAIMetrics io metrics w)) = events w @ [Sql_insert (insert_values metrics)]
   \<and> map_of (insert_values (metrics\<lparr>appointment_booked := None\<rparr>)) ''appointment_booked''
       = Some (Boolean False)
   \<and> map_of (insert_values (metrics\<lparr>appointment_booked := Some b\<rparr>)) ''appointment_booked''
       = Some (Boolean b)"
  by (simp add: createAIMetrics_def insert_values_def or_bool_def Let_def split: sum.split)

end
